theory Spec2Isabelle
  imports Main "HOL-Library.Sublist"
begin

section \<open>Python strings\<close>

text \<open>
  Strings are byte lists. \<open>str.strip()\<close> removes the ASCII characters for which
  \<open>str.isspace\<close> holds (tab to carriage return, the four separators 0x1c to 0x1f and the
  blank); \<open>str.lower()\<close> maps the ASCII capitals. Characters beyond ASCII are left alone.
\<close>

definition py_isspace :: "char \<Rightarrow> bool" where
  "py_isspace c = (let n = (of_char c :: nat) in (9 \<le> n \<and> n \<le> 13) \<or> (28 \<le> n \<and> n \<le> 32))"

definition py_strip :: "string \<Rightarrow> string" where
  "py_strip s = rev (dropWhile py_isspace (rev (dropWhile py_isspace s)))"

definition py_lower_char :: "char \<Rightarrow> char" where
  "py_lower_char c =
     (let n = (of_char c :: nat) in if 65 \<le> n \<and> n \<le> 90 then char_of (n + 32) else c)"

definition py_lower :: "string \<Rightarrow> string" where
  "py_lower s = map py_lower_char s"


text \<open>
  \<open>re.sub(r'```python|```', '', raw)\<close>: every occurrence of a fence is deleted, scanning
  from the left, the longer alternative tried first.
\<close>

fun remove_fences :: "string \<Rightarrow> string" where
  "remove_fences [] = []"
| "remove_fences (c # cs) =
     (if prefix ''```python'' (c # cs) then remove_fences (drop 8 cs)
      else if prefix ''```'' (c # cs) then remove_fences (drop 2 cs)
      else c # remove_fences cs)"

text \<open>Truthiness of an \<open>Optional[str]\<close>: \<open>None\<close> and the empty string are false.\<close>

fun truthy :: "string option \<Rightarrow> bool" where
  "truthy None = False"
| "truthy (Some s) = (s \<noteq> [])"

section \<open>Exceptions\<close>

datatype error =
    RuntimeError string
  | FileNotFoundError string
  | FileExistsError string
  | ValueError string
  | KeyError string
  | TypeError string
  | UnboundLocalError string
  | OtherException string

section \<open>The file system\<close>

text \<open>
  The file system is the set of paths that exist, each with a text content (empty for a
  directory). Paths are compared as they are written. A library call fails only on what
  this state decides: a path that is missing, or one that is already there.
\<close>

type_synonym path = string
type_synonym filesystem = "path \<rightharpoonup> string"

definition path_exists :: "filesystem \<Rightarrow> path \<Rightarrow> bool" where
  "path_exists fs p = (p \<noteq> [] \<and> fs p \<noteq> None)"

text \<open>\<open>os.path.join\<close> of two components and \<open>os.path.dirname\<close> (the POSIX versions).\<close>

definition path_join :: "path \<Rightarrow> path \<Rightarrow> path" where
  "path_join a b =
     (if prefix ''/'' b then b
      else if a = [] \<or> suffix ''/'' a then a @ b
      else a @ ''/'' @ b)"

definition dirname :: "path \<Rightarrow> path" where
  "dirname p =
     (let head = rev (dropWhile (\<lambda>c. c \<noteq> CHR ''/'') (rev p))
      in if head \<noteq> [] \<and> \<not> list_all (\<lambda>c. c = CHR ''/'') head
         then rev (dropWhile (\<lambda>c. c = CHR ''/'') (rev head))
         else head)"

definition under :: "path \<Rightarrow> path \<Rightarrow> bool" where
  "under d p = (p = d \<or> prefix (d @ ''/'') p)"

text \<open>\<open>shutil.rmtree(d)\<close>: the directory and everything below it is gone.\<close>

definition rmtree :: "filesystem \<Rightarrow> path \<Rightarrow> filesystem" where
  "rmtree fs d = (\<lambda>p. if under d p then None else fs p)"

text \<open>
  \<open>os.makedirs(p, exist_ok)\<close>: the leaf and the missing directories above it are
  created; an existing leaf is an error unless \<open>exist_ok\<close>.
\<close>

definition dir_prefixes :: "path \<Rightarrow> path list" where
  "dir_prefixes p = [take i p. i \<leftarrow> [1..<length p], p ! i = CHR ''/'']"

fun mkdirs :: "filesystem \<Rightarrow> path list \<Rightarrow> filesystem" where
  "mkdirs fs [] = fs"
| "mkdirs fs (d # ds) = mkdirs (if path_exists fs d then fs else fs(d \<mapsto> [])) ds"

definition makedirs :: "filesystem \<Rightarrow> path \<Rightarrow> bool \<Rightarrow> error + filesystem" where
  "makedirs fs p exist_ok =
     (if p = [] then Inl (FileNotFoundError p)
      else if path_exists fs p then (if exist_ok then Inr fs else Inl (FileExistsError p))
      else Inr (mkdirs fs (dir_prefixes p @ [p])))"

text \<open>\<open>open(p, "w")\<close> followed by \<open>write\<close>: the directory of the file must exist.\<close>

definition open_write :: "filesystem \<Rightarrow> path \<Rightarrow> string \<Rightarrow> error + filesystem" where
  "open_write fs p content =
     (if p = [] then Inl (FileNotFoundError p)
      else if dirname p \<noteq> [] \<and> \<not> path_exists fs (dirname p) then Inl (FileNotFoundError p)
      else Inr (fs(p \<mapsto> content)))"

text \<open>\<open>shutil.copy(src, dst)\<close>.\<close>

definition shutil_copy :: "filesystem \<Rightarrow> path \<Rightarrow> path \<Rightarrow> error + filesystem" where
  "shutil_copy fs src dst =
     (if src = [] then Inl (FileNotFoundError src)
      else case fs src of
        None \<Rightarrow> Inl (FileNotFoundError src)
      | Some content \<Rightarrow> open_write fs dst content)"

section \<open>The outside world\<close>

text \<open>
  The program talks to two services: the generation service, through \<open>requests.post\<close>,
  and the operating system, through \<open>subprocess.run\<close>. Both are parameters of the model
  (\<open>env\<close>); each may answer differently from one call to the next, so it reads the trace
  of the calls made so far. A command may change the file system as it pleases.

  The text of a prompt is not modelled: a request is the template that builds it, with
  the values the f-string interpolates.
\<close>

datatype user_message =
    Plain string
  | Refactor string string
  | Debug string string

datatype prompt =
    TestPlanPrompt string string
  | CodePrompt string user_message
  | UnitTestsPrompt string string string
  | DebugPrompt string string string
  | AnalysisPrompt string string

record model_config =
  model_name :: string
  model_options :: "(string \<times> string) list"

datatype event =
    Post model_config prompt
  | Run "string list" path nat

text \<open>
  What \<open>requests.post\<close>, \<open>raise_for_status\<close> and the reading of the JSON answer give:
  the \<open>content\<close> of the message, a \<open>RequestException\<close> (no connection, an HTTP error
  status, a body that is not JSON), or any other exception.
\<close>

datatype http_outcome =
    Content string
  | RequestException string
  | OtherError string

text \<open>What \<open>subprocess.run\<close> gives: a completed process, a timeout, another exception.\<close>

datatype proc_outcome =
    Completed string string int
  | TimeoutExpired
  | ProcError string

record env =
  requests_post :: "event list \<Rightarrow> model_config \<Rightarrow> prompt \<Rightarrow> http_outcome"
  subprocess_run ::
    "event list \<Rightarrow> filesystem \<Rightarrow> string list \<Rightarrow> path \<Rightarrow> nat \<Rightarrow> proc_outcome \<times> filesystem"

record project_manager =
  base_dir :: path
  current_dir :: "path option"

record world =
  pm :: project_manager
  files :: filesystem
  trace :: "event list"

text \<open>
  A statement of the program is an action on the world: it returns a value or raises,
  and leaves a world behind either way.
\<close>

type_synonym 'a action = "world \<Rightarrow> (error + 'a) \<times> world"

definition returns :: "'a \<Rightarrow> 'a action" where
  "returns x w = (Inr x, w)"

definition raises :: "error \<Rightarrow> 'a action" where
  "raises e w = (Inl e, w)"

definition and_then :: "'a action \<Rightarrow> ('a \<Rightarrow> 'b action) \<Rightarrow> 'b action" where
  "and_then m f w = (case m w of (Inl e, w') \<Rightarrow> (Inl e, w') | (Inr x, w') \<Rightarrow> f x w')"

section \<open>ProjectManager\<close>

text \<open>\<open>codebase/project_manager.py\<close>; the two single-file agents carry the same class.\<close>

definition ProjectManager :: "path \<Rightarrow> project_manager" where
  "ProjectManager b = \<lparr>base_dir = b, current_dir = None\<rparr>"

definition not_initialized :: error where
  "not_initialized = RuntimeError ''No project directory exists. Call create_project() first.''"

definition create_project :: "unit action" where
  "create_project w =
     (let b = base_dir (pm w);
          w1 = (if path_exists (files w) b then w\<lparr>files := rmtree (files w) b\<rparr> else w)
      in case makedirs (files w1) b False of
           Inl e \<Rightarrow> (Inl e, w1)
         | Inr fs \<Rightarrow> (Inr (), w1\<lparr>files := fs, pm := (pm w1)\<lparr>current_dir := Some b\<rparr>\<rparr>))"

definition write_file :: "string \<Rightarrow> string \<Rightarrow> unit action" where
  "write_file file_name content w =
     (if \<not> truthy (current_dir (pm w)) then (Inl not_initialized, w)
      else case open_write (files w) (path_join (the (current_dir (pm w))) file_name) content of
             Inl e \<Rightarrow> (Inl e, w)
           | Inr fs \<Rightarrow> (Inr (), w\<lparr>files := fs\<rparr>))"


definition run_command :: "env \<Rightarrow> string list \<Rightarrow> nat \<Rightarrow> (string \<times> string \<times> int) action" where
  "run_command E command timeout w =
     (if \<not> truthy (current_dir (pm w)) then (Inl not_initialized, w)
      else let cwd = the (current_dir (pm w));
               (outcome, fs) = subprocess_run E (trace w) (files w) command cwd timeout;
               w' = w\<lparr>files := fs, trace := trace w @ [Run command cwd timeout]\<rparr>
           in case outcome of
                Completed out err returncode \<Rightarrow> (Inr (out, err, returncode), w')
              | TimeoutExpired \<Rightarrow> (Inr ([], ''Error: Command timed out.'', 1), w')
              | ProcError e \<Rightarrow>
                  (Inr ([], ''Error: Failed to execute command. Details: '' @ e, 1), w'))"

definition cleanup :: "unit action" where
  "cleanup w =
     (if base_dir (pm w) \<noteq> [] \<and> path_exists (files w) (base_dir (pm w))
      then (Inr (), w\<lparr>files := rmtree (files w) (base_dir (pm w)),
                       pm := (pm w)\<lparr>current_dir := None\<rparr>\<rparr>)
      else (Inr (), w))"

text \<open>Library calls that change the world, as actions.\<close>

definition os_makedirs :: "path \<Rightarrow> bool \<Rightarrow> unit action" where
  "os_makedirs p exist_ok w =
     (case makedirs (files w) p exist_ok of
        Inl e \<Rightarrow> (Inl e, w)
      | Inr fs \<Rightarrow> (Inr (), w\<lparr>files := fs\<rparr>))"

text \<open>
  \<open>shutil.copy(os.path.join(project_manager.current_dir, file_name), dst)\<close>; joining
  \<open>None\<close> is a \<open>TypeError\<close>.
\<close>

definition copy_from_project :: "string \<Rightarrow> path \<Rightarrow> unit action" where
  "copy_from_project file_name dst w =
     (case current_dir (pm w) of
        None \<Rightarrow> (Inl (TypeError ''expected str, bytes or os.PathLike object, not NoneType''), w)
      | Some d \<Rightarrow>
          (case shutil_copy (files w) (path_join d file_name) dst of
             Inl e \<Rightarrow> (Inl e, w)
           | Inr fs \<Rightarrow> (Inr (), w\<lparr>files := fs\<rparr>)))"

text \<open>
  \<open>try: body finally: fin\<close> runs \<open>fin\<close> however \<open>body\<close> ends; an exception of
  \<open>fin\<close> replaces the outcome of \<open>body\<close>. \<open>try: body except Exception as e: h(e)\<close>.
\<close>

definition try_finally :: "'a action \<Rightarrow> unit action \<Rightarrow> 'a action" where
  "try_finally body fin w =
     (case body w of (r, w1) \<Rightarrow>
        (case fin w1 of (Inl e, w2) \<Rightarrow> (Inl e, w2) | (Inr u, w2) \<Rightarrow> (r, w2)))"

definition try_except :: "'a action \<Rightarrow> (error \<Rightarrow> 'a action) \<Rightarrow> 'a action" where
  "try_except body handler w =
     (case body w of (Inl e, w1) \<Rightarrow> handler e w1 | (Inr x, w1) \<Rightarrow> (Inr x, w1))"

section \<open>The generation adapter\<close>

text \<open>
  \<open>succes/qwen3-coder:latest.py\<close> (functions) and \<open>succes/phi4-reasoning:14b-plus-q8_0.py\<close>
  (methods of \<open>CodingAgentV2\<close>) hold the same code for what follows, up to the wording of
  the prompts and the messages printed.
\<close>

definition MODELS :: "string \<rightharpoonup> model_config" where
  "MODELS =
     [''coder'' \<mapsto> \<lparr>model_name = ''qwen3-coder:latest'',
          model_options = [(''temperature'', ''0.6''), (''num_ctx'', ''16000''), (''top_p'', ''0.95'')]\<rparr>,
      ''tester'' \<mapsto> \<lparr>model_name = ''qwen3-coder:latest'',
          model_options = [(''temperature'', ''0.1''), (''num_ctx'', ''16000''), (''top_p'', ''0.8'')]\<rparr>,
      ''debugger'' \<mapsto> \<lparr>model_name = ''qwen3-coder:latest'',
          model_options = [(''temperature'', ''0.1''), (''num_ctx'', ''16000''), (''top_p'', ''0.95'')]\<rparr>,
      ''analyzer'' \<mapsto> \<lparr>model_name = ''qwen3-coder:latest'',
          model_options = [(''temperature'', ''0.0''), (''num_ctx'', ''16000'')]\<rparr>,
      ''planner'' \<mapsto> \<lparr>model_name = ''qwen3-coder:latest'',
          model_options = [(''temperature'', ''0.2''), (''num_ctx'', ''16000''), (''top_p'', ''0.8'')]\<rparr>]"

definition OUTPUT_DIR :: path where
  "OUTPUT_DIR = ''generated_code''"

definition quoted :: "string \<Rightarrow> string" where
  "quoted s = [CHR 0x27] @ s @ [CHR 0x27]"

definition connect_error :: "string \<Rightarrow> string \<Rightarrow> string" where
  "connect_error name e = ''Error: Failed to connect to '' @ quoted name @ '' API. Details: '' @ e"

definition call_ollama_api :: "env \<Rightarrow> prompt \<Rightarrow> string \<Rightarrow> string action" where
  "call_ollama_api E messages model_key w =
     (case MODELS model_key of
        None \<Rightarrow>
          (Inl (ValueError (''Model key '' @ quoted model_key @ '' not found in config.'')), w)
      | Some model_config \<Rightarrow>
          (let w' = w\<lparr>trace := trace w @ [Post model_config messages]\<rparr>
           in case requests_post E (trace w) model_config messages of
                Content c \<Rightarrow> (Inr (py_strip c), w')
              | RequestException e \<Rightarrow> (Inr (connect_error (model_name model_config) e), w')
              | OtherError e \<Rightarrow> (Inl (OtherException e), w')))"

definition generate_test_plan :: "env \<Rightarrow> string \<Rightarrow> string \<Rightarrow> string action" where
  "generate_test_plan E language code_prompt =
     call_ollama_api E (TestPlanPrompt language code_prompt) ''planner''"

definition generate_code ::
    "env \<Rightarrow> string \<Rightarrow> string \<Rightarrow> string option \<Rightarrow> string \<Rightarrow> string action" where
  "generate_code E language prompt initial_code mode =
     (let user_message =
            (if truthy initial_code then
               (if mode = ''refactor'' then Refactor (the initial_code) prompt
                else if mode = ''debug'' then Debug (the initial_code) prompt
                else Plain prompt)
             else Plain prompt)
      in and_then (call_ollama_api E (CodePrompt language user_message) ''coder'')
           (\<lambda>raw_code. returns (py_strip (remove_fences raw_code))))"

definition generate_unit_tests :: "env \<Rightarrow> string \<Rightarrow> string \<Rightarrow> string \<Rightarrow> string action" where
  "generate_unit_tests E file_name code_content test_plan_description =
     and_then
       (call_ollama_api E (UnitTestsPrompt file_name code_content test_plan_description) ''tester'')
       (\<lambda>raw_test_code. returns (py_strip (remove_fences raw_test_code)))"

definition debug_code :: "env \<Rightarrow> string \<Rightarrow> string \<Rightarrow> string \<Rightarrow> string action" where
  "debug_code E code_content test_output test_file =
     and_then (call_ollama_api E (DebugPrompt code_content test_output test_file) ''debugger'')
       (\<lambda>raw_fixed_code. returns (py_strip (remove_fences raw_fixed_code)))"

section \<open>The failure classifier\<close>

definition analyze_test_failure :: "env \<Rightarrow> string \<Rightarrow> string \<Rightarrow> string action" where
  "analyze_test_failure E code_content test_output =
     and_then (call_ollama_api E (AnalysisPrompt code_content test_output) ''analyzer'')
       (\<lambda>answer. let analysis_result = py_lower (py_strip answer)
                 in if analysis_result \<notin> set [''code_bug'', ''test_bug'']
                    then returns ''cannot_determine''
                    else returns analysis_result)"



section \<open>The orchestrator\<close>

text \<open>
  The two limits are module constants (3 and 2 in both agents); they are a parameter
  here, so that a run under other limits can be stated.
\<close>

record config =
  MAX_DEBUG_ATTEMPTS :: nat
  MAX_TEST_REGEN_ATTEMPTS :: nat

definition default_config :: config where
  "default_config = \<lparr>MAX_DEBUG_ATTEMPTS = 3, MAX_TEST_REGEN_ATTEMPTS = 2\<rparr>"

text \<open>The variables the loop assigns; \<open>generated_tests\<close> is unbound before the first pass.\<close>

record loop_state =
  generated_code :: string
  generated_tests :: "string option"
  test_output :: string
  test_passed :: bool
  analysis_result :: string

datatype control = Continue loop_state | Break loop_state

text \<open>
  One pass of \<open>for attempt in range(MAX_DEBUG_ATTEMPTS + MAX_TEST_REGEN_ATTEMPTS)\<close>.
  Both guards read the loop index \<open>attempt\<close>.
\<close>

definition loop_body ::
    "env \<Rightarrow> config \<Rightarrow> string list \<Rightarrow> string \<Rightarrow> string \<Rightarrow> string \<Rightarrow> nat \<Rightarrow> loop_state
       \<Rightarrow> control action" where
  "loop_body E cfg runner code_file test_file test_plan attempt st =
     and_then (generate_unit_tests E code_file (generated_code st) test_plan) (\<lambda>tests.
     and_then (write_file test_file tests) (\<lambda>u.
     and_then (run_command E (runner @ [test_file]) 60) (\<lambda>(out, err, returncode).
       if returncode = 0 then
         returns (Break (st\<lparr>generated_tests := Some tests, test_output := out,
                              test_passed := True\<rparr>))
       else
         and_then (analyze_test_failure E (generated_code st) (out @ err)) (\<lambda>a.
           if a = ''code_bug'' \<and> attempt < MAX_DEBUG_ATTEMPTS cfg then
             and_then (debug_code E (generated_code st) (out @ err) test_file) (\<lambda>fixed.
             and_then (write_file code_file fixed) (\<lambda>u.
               returns (Continue (st\<lparr>generated_code := fixed, generated_tests := Some tests,
                                      test_output := out @ err, analysis_result := a\<rparr>))))
           else if a = ''test_bug'' \<and> attempt < MAX_TEST_REGEN_ATTEMPTS cfg then
             returns (Continue (st\<lparr>generated_tests := Some tests, test_output := out @ err,
                                    analysis_result := a\<rparr>))
           else
             returns (Break (st\<lparr>generated_tests := Some tests, test_output := out @ err,
                                 analysis_result := a\<rparr>))))))"

function test_loop ::
    "env \<Rightarrow> config \<Rightarrow> string list \<Rightarrow> string \<Rightarrow> string \<Rightarrow> string \<Rightarrow> nat \<Rightarrow> nat \<Rightarrow> loop_state
       \<Rightarrow> loop_state action" where
  "test_loop E cfg runner code_file test_file test_plan n attempt st w =
     (if attempt < n then
        (case loop_body E cfg runner code_file test_file test_plan attempt st w of
           (Inl e, w') \<Rightarrow> (Inl e, w')
         | (Inr (Continue st'), w') \<Rightarrow>
             test_loop E cfg runner code_file test_file test_plan n (Suc attempt) st' w'
         | (Inr (Break st'), w') \<Rightarrow> (Inr st', w'))
      else (Inr st, w))"
  by pat_completeness auto
termination
  by (relation "measure (\<lambda>(E, cfg, runner, code_file, test_file, test_plan, n, attempt, st, w).
        n - attempt)") auto

definition initial_state :: "string \<Rightarrow> loop_state" where
  "initial_state code =
     \<lparr>generated_code = code, generated_tests = None, test_output = [], test_passed = False,
      analysis_result = ''code_bug''\<rparr>"

definition run_tests :: "env \<Rightarrow> config \<Rightarrow> string list \<Rightarrow> string \<Rightarrow> string \<Rightarrow> string \<Rightarrow> string
    \<Rightarrow> loop_state action" where
  "run_tests E cfg runner code_file test_file test_plan code =
     test_loop E cfg runner code_file test_file test_plan
       (MAX_DEBUG_ATTEMPTS cfg + MAX_TEST_REGEN_ATTEMPTS cfg) 0 (initial_state code)"

subsection \<open>\<open>CodingAgentV2.execute_coding_agent_v2\<close> (phi4-reasoning)\<close>

text \<open>
  The answer is a text built from one of three templates; the model keeps the template
  and the values put into it.
\<close>

datatype final_answer =
    AnswerPassed path string string
  | AnswerFailed path string string string
  | AnswerError error

definition CodingAgentV2 :: "project_manager \<Rightarrow> unit action" where
  "CodingAgentV2 project_manager =
     and_then (\<lambda>w. (Inr (), w\<lparr>pm := project_manager\<rparr>)) (\<lambda>u. os_makedirs OUTPUT_DIR True)"

definition agent_v2_body ::
    "env \<Rightarrow> config \<Rightarrow> string \<Rightarrow> string \<Rightarrow> string \<Rightarrow> string \<Rightarrow> string \<Rightarrow> string option
       \<Rightarrow> final_answer action" where
  "agent_v2_body E cfg language code_file prompt test_plan mode initial_code =
     and_then create_project (\<lambda>u.
     and_then
       (if truthy initial_code \<and> mode \<in> set [''refactor'', ''debug'']
        then generate_code E language prompt initial_code mode
        else generate_code E language prompt None ''generate'') (\<lambda>code.
     and_then (write_file code_file code) (\<lambda>u.
     and_then (run_tests E cfg [''pytest'', ''-q'', ''--tb=no''] code_file
                 (''test_'' @ code_file) test_plan code) (\<lambda>st.
     and_then (copy_from_project code_file (path_join OUTPUT_DIR code_file)) (\<lambda>u.
       returns
         (if test_passed st
          then AnswerPassed (path_join OUTPUT_DIR code_file) (generated_code st) (test_output st)
          else AnswerFailed (path_join OUTPUT_DIR code_file)
                 (if analysis_result st = ''code_bug''
                  then ''I was unable to fix a bug in the code within the allowed attempts.''
                  else ''The analysis suggests the failure may be due to a flaw in the generated tests.'')
                 (generated_code st) (test_output st)))))))"

definition execute_coding_agent_v2 ::
    "env \<Rightarrow> config \<Rightarrow> string \<Rightarrow> string \<Rightarrow> string \<Rightarrow> string \<Rightarrow> string \<Rightarrow> string option
       \<Rightarrow> final_answer action" where
  "execute_coding_agent_v2 E cfg language code_file prompt test_plan mode initial_code =
     try_finally
       (try_except (agent_v2_body E cfg language code_file prompt test_plan mode initial_code)
          (\<lambda>e. returns (AnswerError e)))
       cleanup"

subsection \<open>\<open>generate_code_and_tests\<close> (qwen3-coder)\<close>

definition code_and_tests_body ::
    "env \<Rightarrow> config \<Rightarrow> string \<Rightarrow> string \<Rightarrow> string option \<Rightarrow> (string \<times> string) action" where
  "code_and_tests_body E cfg prompt language test_plan =
     and_then create_project (\<lambda>u.
     and_then (generate_code E language prompt None ''generate'') (\<lambda>code.
     and_then (write_file ''generated_module.py'' code) (\<lambda>u.
     and_then
       (if \<not> truthy test_plan then generate_test_plan E language prompt
        else returns (the test_plan)) (\<lambda>plan.
     and_then (run_tests E cfg [''python'', ''-m'', ''pytest'', ''-q'', ''--tb=no'']
                 ''generated_module.py'' ''test_generated_module.py'' plan code) (\<lambda>st.
     and_then (copy_from_project ''generated_module.py''
                 (path_join OUTPUT_DIR ''generated_module.py'')) (\<lambda>u.
     and_then (copy_from_project ''test_generated_module.py''
                 (path_join OUTPUT_DIR ''test_generated_module.py'')) (\<lambda>u.
       case generated_tests st of
         None \<Rightarrow> raises (UnboundLocalError ''generated_tests'')
       | Some tests \<Rightarrow> returns (generated_code st, tests))))))))"

definition generate_code_and_tests ::
    "env \<Rightarrow> config \<Rightarrow> string \<Rightarrow> string \<Rightarrow> string option \<Rightarrow> (string \<times> string) action" where
  "generate_code_and_tests E cfg prompt language test_plan =
     and_then (os_makedirs OUTPUT_DIR True) (\<lambda>u.
     and_then (\<lambda>w. (Inr (), w\<lparr>pm := ProjectManager ''temp_coding_project''\<rparr>)) (\<lambda>u.
       try_finally
         (try_except (code_and_tests_body E cfg prompt language test_plan) (\<lambda>e. raises e))
         cleanup))"

section \<open>Observing a run\<close>

text \<open>
  What a run did is read off its trace: each command executed is one attempt, each
  request built by \<open>debug_code\<close> one repair, each request built by
  \<open>analyze_test_failure\<close> one classification.
\<close>

fun is_run :: "event \<Rightarrow> bool" where
  "is_run (Run command cwd timeout) = True"
| "is_run (Post c p) = False"

fun is_repair :: "event \<Rightarrow> bool" where
  "is_repair (Post c (DebugPrompt code out f)) = True"
| "is_repair e = False"

fun is_classification :: "event \<Rightarrow> bool" where
  "is_classification (Post c (AnalysisPrompt code out)) = True"
| "is_classification e = False"


definition attempts :: "world \<Rightarrow> nat" where
  "attempts w = length (filter is_run (trace w))"

definition repairs :: "world \<Rightarrow> nat" where
  "repairs w = length (filter is_repair (trace w))"


subsection \<open>Stub services\<close>

text \<open>
  A generation service that returns fixed texts, and whose classifier answers
  \<open>verdict k\<close> to its \<open>k\<close>-th question (counted from 0); a test runner that always ends
  the same way and touches no file.
\<close>

definition stub_post :: "(nat \<Rightarrow> string) \<Rightarrow> event list \<Rightarrow> model_config \<Rightarrow> prompt \<Rightarrow> http_outcome" where
  "stub_post verdict hist c p =
     (case p of
        TestPlanPrompt language request \<Rightarrow> Content ''1. Test the add function.''
      | CodePrompt language message \<Rightarrow> Content ''def add(a, b): return a - b''
      | UnitTestsPrompt file_name code plan \<Rightarrow> Content ''def test_add(): assert add(1, 2) == 3''
      | DebugPrompt code out test_file \<Rightarrow> Content ''def add(a, b): return a - b''
      | AnalysisPrompt code out \<Rightarrow> Content (verdict (length (filter is_classification hist))))"

definition stub_env :: "(nat \<Rightarrow> string) \<Rightarrow> proc_outcome \<Rightarrow> env" where
  "stub_env verdict outcome =
     \<lparr>requests_post = stub_post verdict,
      subprocess_run = (\<lambda>hist fs command cwd timeout. (outcome, fs))\<rparr>"

definition failing_tests :: proc_outcome where
  "failing_tests = Completed ''F'' ''1 failed'' 1"

definition passing_tests :: proc_outcome where
  "passing_tests = Completed ''1 passed'' [] 0"

definition limits :: "nat \<Rightarrow> nat \<Rightarrow> config" where
  "limits d t = \<lparr>MAX_DEBUG_ATTEMPTS = d, MAX_TEST_REGEN_ATTEMPTS = t\<rparr>"

text \<open>
  A service whose first answer, the code, fails with a \<open>RequestException\<close> and which
  works from then on; a runner that passes once the repaired code is in place.
\<close>

definition outage_env :: env where
  "outage_env =
     \<lparr>requests_post = (\<lambda>hist c p.
        case p of
          TestPlanPrompt language request \<Rightarrow> Content ''1. Test the add function.''
        | CodePrompt language message \<Rightarrow> RequestException ''Connection refused''
        | UnitTestsPrompt file_name code plan \<Rightarrow> Content ''def test_add(): assert add(1, 2) == 3''
        | DebugPrompt code out test_file \<Rightarrow> Content ''def add(a, b): return a + b''
        | AnalysisPrompt code out \<Rightarrow> Content ''code_bug''),
      subprocess_run = (\<lambda>hist fs command cwd timeout.
        if fs (path_join cwd ''add.py'') = Some ''def add(a, b): return a + b''
        then (passing_tests, fs) else (failing_tests, fs))\<rparr>"


text \<open>
  Worlds to start from: nothing on disk and no call made; the same with a stale project
  directory left by an earlier run; and the world after \<open>CodingAgentV2(ProjectManager())\<close>.
\<close>

definition empty_world :: world where
  "empty_world = \<lparr>pm = ProjectManager ''temp_project'', files = Map.empty, trace = []\<rparr>"


definition agent_world :: world where
  "agent_world = snd (CodingAgentV2 (ProjectManager ''temp_coding_project'') empty_world)"

definition created_world :: world where
  "created_world = snd (create_project empty_world)"

definition analyzer_config :: model_config where
  "analyzer_config =
     \<lparr>model_name = ''qwen3-coder:latest'',
      model_options = [(''temperature'', ''0.0''), (''num_ctx'', ''16000'')]\<rparr>"

text \<open>The requests a run sent to the generation service, in order.\<close>

fun requests :: "event list \<Rightarrow> prompt list" where
  "requests [] = []"
| "requests (Post c p # es) = p # requests es"
| "requests (Run command cwd timeout # es) = requests es"

subsection \<open>Runs under the stub services\<close>

text \<open>
  The classifier always answers \<open>code_bug\<close>, the tests always fail, the limits are
  (2, 1): once through the agent class, once through the function.
\<close>

definition always_code_bug_agent :: "(error + final_answer) \<times> world" where
  "always_code_bug_agent =
     execute_coding_agent_v2 (stub_env (\<lambda>k. ''code_bug'') failing_tests) (limits 2 1)
       ''python'' ''add.py'' ''add two numbers'' ''1. Test the add function.'' ''generate'' None
       agent_world"

definition always_code_bug_function :: "(error + string \<times> string) \<times> world" where
  "always_code_bug_function =
     generate_code_and_tests (stub_env (\<lambda>k. ''code_bug'') failing_tests) (limits 2 1)
       ''add two numbers'' ''python'' (Some ''1. Test the add function.'') empty_world"




text \<open>Mode \<open>debug\<close> and no initial code; the tests pass at once.\<close>

definition debug_without_code :: "(error + final_answer) \<times> world" where
  "debug_without_code =
     execute_coding_agent_v2 (stub_env (\<lambda>k. ''code_bug'') passing_tests) default_config
       ''python'' ''add.py'' ''fix the bug'' ''1. Test the add function.'' ''debug'' None
       agent_world"

text \<open>The service is unreachable for the first request only.\<close>

definition outage_run :: "(error + final_answer) \<times> world" where
  "outage_run =
     execute_coding_agent_v2 outage_env default_config
       ''python'' ''add.py'' ''add two numbers'' ''1. Test the add function.'' ''generate'' None
       agent_world"



text \<open>Every command times out: the world in which the first test command is about to run.\<close>

definition timeout_env :: env where
  "timeout_env = stub_env (\<lambda>k. ''code_bug'') TimeoutExpired"

definition tests_generated_world :: world where
  "tests_generated_world =
     snd (generate_unit_tests timeout_env ''add.py'' ''def add(a, b): return a - b''
            ''1. Test the add function.'' created_world)"

definition tests_written_world :: world where
  "tests_written_world =
     snd (write_file ''test_add.py'' ''def test_add(): assert add(1, 2) == 3''
            tests_generated_world)"

section \<open>Properties of the sandbox\<close>




lemma cleanup_removes: "\<not> path_exists (files (snd (cleanup w))) (base_dir (pm w))"
  by (auto simp: cleanup_def path_exists_def rmtree_def under_def)









lemma created_world_facts:
  "fst (create_project empty_world) = Inr ()"
  "current_dir (pm created_world) = Some ''temp_project''"
  "base_dir (pm created_world) = ''temp_project''"
  by (simp_all add: created_world_def create_project_def empty_world_def ProjectManager_def
        makedirs_def path_exists_def Let_def)


text \<open>
  C9. When launching or running the command raises an exception other than a timeout,
  \<open>run_command\<close> on a created project returns the failure triple (empty output, the
  message with the details, status 1) and raises nothing.
\<close>

theorem run_command_error:
  assumes "truthy (current_dir (pm w))"
    and "fst (subprocess_run E (trace w) (files w) command (the (current_dir (pm w))) timeout)
          = ProcError e"
  shows "fst (run_command E command timeout w)
          = Inr ([], ''Error: Failed to execute command. Details: '' @ e, 1)"
  using assms
  by (cases "subprocess_run E (trace w) (files w) command (the (current_dir (pm w))) timeout")
     (simp add: run_command_def)

theorem run_command_error_witness:
  "truthy (current_dir (pm created_world))
   \<and> fst (run_command (stub_env (\<lambda>k. ''code_bug'') (ProcError ''No such file: pytest''))
            [''pytest'', ''-q''] 60 created_world)
       = Inr ([], ''Error: Failed to execute command. Details: No such file: pytest'', 1)"
proof -
  have h1: "truthy (current_dir (pm created_world))"
    by (simp add: created_world_facts)
  have h2: "fst (subprocess_run (stub_env (\<lambda>k. ''code_bug'') (ProcError ''No such file: pytest''))
              (trace created_world) (files created_world) [''pytest'', ''-q'']
              (the (current_dir (pm created_world))) 60) = ProcError ''No such file: pytest''"
    by (simp add: stub_env_def)
  show ?thesis
    using h1 run_command_error [OF h1 h2] by simp
qed



subsection \<open>A timeout\<close>

lemma MODELS_analyzer: "MODELS ''analyzer'' = Some analyzer_config"
  by (simp add: MODELS_def analyzer_config_def)

lemma and_then_cases:
  assumes "and_then m f w = (r, w')"
  obtains (fail) e where "m w = (Inl e, w')" and "r = Inl e"
  | (ok) x w1 where "m w = (Inr x, w1)" and "f x w1 = (r, w')"
  using assms by (auto simp: and_then_def split: prod.splits sum.splits)

lemma returns_effect: "returns x w = (r, w') \<Longrightarrow> w' = w \<and> r = Inr x"
  by (auto simp: returns_def)


lemma analyze_test_failure_trace:
  "trace (snd (analyze_test_failure E code out w))
     = trace w @ [Post analyzer_config (AnalysisPrompt code out)]"
  by (auto simp: analyze_test_failure_def and_then_def call_ollama_api_def MODELS_analyzer
        Let_def returns_def split: http_outcome.splits)

lemma call_ollama_api_extends:
  assumes "call_ollama_api E m k w = (r, w')"
  shows "prefix (trace w) (trace w')"
  using assms
  by (auto simp: call_ollama_api_def Let_def split: option.splits http_outcome.splits)

lemma debug_code_extends:
  assumes "debug_code E c out f w = (r, w')"
  shows "prefix (trace w) (trace w')"
  using assms unfolding debug_code_def
  by (elim and_then_cases) (auto dest!: returns_effect call_ollama_api_extends)

lemma write_file_trace:
  assumes "write_file n c w = (r, w')"
  shows "trace w' = trace w"
  using assms by (auto simp: write_file_def split: if_splits sum.splits)

lemma write_file_truthy:
  assumes "write_file n c w = (Inr u, w')"
  shows "truthy (current_dir (pm w'))"
  using assms by (auto simp: write_file_def split: if_splits sum.splits)

lemma run_command_timeout:
  assumes "truthy (current_dir (pm w))"
    and "fst (subprocess_run E (trace w) (files w) command (the (current_dir (pm w))) timeout)
          = TimeoutExpired"
  shows "fst (run_command E command timeout w) = Inr ([], ''Error: Command timed out.'', 1)"
    and "trace (snd (run_command E command timeout w))
          = trace w @ [Run command (the (current_dir (pm w))) timeout]"
  using assms
  by (cases "subprocess_run E (trace w) (files w) command (the (current_dir (pm w))) timeout";
      simp add: run_command_def)+

lemma after_analysis_extends:
  assumes "(if a = ''code_bug'' \<and> attempt < MAX_DEBUG_ATTEMPTS cfg then
             and_then (debug_code E code out test_file) (\<lambda>fixed.
             and_then (write_file code_file fixed) (\<lambda>u. returns (Continue (f1 fixed))))
           else if a = ''test_bug'' \<and> attempt < MAX_TEST_REGEN_ATTEMPTS cfg then
             returns (Continue s2)
           else returns (Break s3)) w = (r, w')"
  shows "prefix (trace w) (trace w')"
  using assms
  by (auto elim!: and_then_cases split: if_splits
        dest!: returns_effect debug_code_extends write_file_trace)

lemma loop_body_timeout:
  assumes gen: "generate_unit_tests E code_file (generated_code st) plan w0 = (Inr tests, w1)"
    and wr: "write_file test_file tests w1 = (Inr (), w)"
    and tout: "fst (subprocess_run E (trace w) (files w) (runner @ [test_file])
                 (the (current_dir (pm w))) 60) = TimeoutExpired"
  shows "\<exists>rest. trace (snd (loop_body E cfg runner code_file test_file plan attempt st w0))
           = trace w @ [Run (runner @ [test_file]) (the (current_dir (pm w))) 60,
                        Post analyzer_config
                          (AnalysisPrompt (generated_code st) ''Error: Command timed out.'')] @ rest"
proof -
  have tr: "truthy (current_dir (pm w))"
    using wr by (rule write_file_truthy)
  obtain w3 where rc: "run_command E (runner @ [test_file]) 60 w
      = (Inr ([], ''Error: Command timed out.'', 1), w3)"
    and t3: "trace w3 = trace w @ [Run (runner @ [test_file]) (the (current_dir (pm w))) 60]"
    using run_command_timeout [OF tr tout] by (metis prod.collapse)
  obtain ra w4 where an: "analyze_test_failure E (generated_code st) ''Error: Command timed out.'' w3
      = (ra, w4)"
    by fastforce
  have t4: "trace w4 = trace w3 @ [Post analyzer_config
       (AnalysisPrompt (generated_code st) ''Error: Command timed out.'')]"
    using analyze_test_failure_trace [of E "generated_code st" "''Error: Command timed out.''" w3] an
    by simp
  obtain r w' where lb: "loop_body E cfg runner code_file test_file plan attempt st w0 = (r, w')"
    by fastforce
  have "prefix (trace w4) (trace w')"
  proof (cases ra)
    case (Inl e)
    with lb gen wr rc an have "w' = w4"
      by (simp add: loop_body_def and_then_def)
    then show ?thesis by simp
  next
    case (Inr a)
    with lb gen wr rc an show ?thesis
      by (simp add: loop_body_def
            and_then_def [of "generate_unit_tests E code_file (generated_code st) plan"]
            and_then_def [of "write_file test_file tests"]
            and_then_def [of "run_command E (runner @ [test_file]) 60"]
            and_then_def [of "analyze_test_failure E (generated_code st) ''Error: Command timed out.''"])
         (erule after_analysis_extends)
  qed
  then obtain rest where "trace w' = trace w4 @ rest"
    by (auto simp: prefix_def)
  with t3 t4 lb show ?thesis by simp
qed

text \<open>
  C6. On a created project, a command that exceeds its timeout makes \<open>run_command\<close>
  return the failure triple (empty output, the message \<open>Error: Command timed out.\<close>,
  status 1) and raise nothing. In the loop, when that command is the test run, the next
  request to the service is the classification of this message: the trace of the pass
  goes on with the run and then the analysis request.
\<close>

theorem timeout_is_a_failing_run:
  assumes "truthy (current_dir (pm w))"
    and "fst (subprocess_run E (trace w) (files w) command (the (current_dir (pm w))) timeout)
          = TimeoutExpired"
  shows "fst (run_command E command timeout w) = Inr ([], ''Error: Command timed out.'', 1)
    \<and> (generate_unit_tests E code_file (generated_code st) plan w0 = (Inr tests, w1)
         \<and> write_file test_file tests w1 = (Inr (), w)
         \<and> command = runner @ [test_file] \<and> timeout = 60
       \<longrightarrow> (\<exists>rest. trace (snd (loop_body E cfg runner code_file test_file plan attempt st w0))
              = trace w @ [Run command (the (current_dir (pm w))) 60,
                           Post analyzer_config
                             (AnalysisPrompt (generated_code st) ''Error: Command timed out.'')]
                  @ rest))"
  using run_command_timeout(1) [OF assms] loop_body_timeout assms(2) by blast

lemma timeout_worlds:
  "generate_unit_tests timeout_env ''add.py'' ''def add(a, b): return a - b''
      ''1. Test the add function.'' created_world
     = (Inr ''def test_add(): assert add(1, 2) == 3'', tests_generated_world)"
  "write_file ''test_add.py'' ''def test_add(): assert add(1, 2) == 3'' tests_generated_world
     = (Inr (), tests_written_world)"
proof -
  have "fst (generate_unit_tests timeout_env ''add.py'' ''def add(a, b): return a - b''
      ''1. Test the add function.'' created_world) = Inr ''def test_add(): assert add(1, 2) == 3''"
    by code_simp
  then show "generate_unit_tests timeout_env ''add.py'' ''def add(a, b): return a - b''
      ''1. Test the add function.'' created_world
     = (Inr ''def test_add(): assert add(1, 2) == 3'', tests_generated_world)"
    by (simp add: tests_generated_world_def prod_eq_iff)
  have "fst (write_file ''test_add.py'' ''def test_add(): assert add(1, 2) == 3''
           tests_generated_world) = Inr ()"
    by code_simp
  then show "write_file ''test_add.py'' ''def test_add(): assert add(1, 2) == 3''
      tests_generated_world = (Inr (), tests_written_world)"
    by (simp add: tests_written_world_def prod_eq_iff)
qed

theorem timeout_is_a_failing_run_witness:
  "truthy (current_dir (pm tests_written_world))
   \<and> fst (run_command timeout_env [''pytest'', ''-q'', ''--tb=no'', ''test_add.py''] 60
            tests_written_world)
       = Inr ([], ''Error: Command timed out.'', 1)
   \<and> (\<exists>rest. trace (snd (loop_body timeout_env default_config [''pytest'', ''-q'', ''--tb=no'']
                 ''add.py'' ''test_add.py'' ''1. Test the add function.'' 0
                 (initial_state ''def add(a, b): return a - b'') created_world))
        = trace tests_written_world
            @ [Run [''pytest'', ''-q'', ''--tb=no'', ''test_add.py'']
                 (the (current_dir (pm tests_written_world))) 60,
               Post analyzer_config
                 (AnalysisPrompt ''def add(a, b): return a - b'' ''Error: Command timed out.'')]
            @ rest)"
proof -
  have h1: "truthy (current_dir (pm tests_written_world))"
    using timeout_worlds(2) by (rule write_file_truthy)
  have h2: "fst (subprocess_run timeout_env (trace tests_written_world)
              (files tests_written_world) ([''pytest'', ''-q'', ''--tb=no''] @ [''test_add.py''])
              (the (current_dir (pm tests_written_world))) 60) = TimeoutExpired"
    by (simp add: timeout_env_def stub_env_def)
  have g: "generated_code (initial_state ''def add(a, b): return a - b'')
      = ''def add(a, b): return a - b''"
    by (simp add: initial_state_def)
  show ?thesis
    using h1 timeout_worlds g
      timeout_is_a_failing_run [OF h1 h2, where runner = "[''pytest'', ''-q'', ''--tb=no'']"
        and test_file = "''test_add.py''" and code_file = "''add.py''"
        and st = "initial_state ''def add(a, b): return a - b''"
        and plan = "''1. Test the add function.''" and ?w0.0 = created_world
        and tests = "''def test_add(): assert add(1, 2) == 3''" and ?w1.0 = tests_generated_world
        and cfg = default_config and attempt = 0]
    by simp
qed

section \<open>Properties of the failure classifier\<close>

lemma analyze_test_failure_labels:
  assumes "analyze_test_failure E code out w = (Inr label, w')"
  shows "label \<in> {''code_bug'', ''test_bug'', ''cannot_determine''}"
  using assms unfolding analyze_test_failure_def
  by (elim and_then_cases) (auto simp: Let_def dest!: returns_effect split: if_splits)

lemma analyze_test_failure_normalizes:
  assumes "requests_post E (trace w) analyzer_config (AnalysisPrompt code out) = Content answer"
  shows "fst (analyze_test_failure E code out w)
    = Inr (if py_lower (py_strip (py_strip answer)) \<in> {''code_bug'', ''test_bug''}
           then py_lower (py_strip (py_strip answer)) else ''cannot_determine'')"
  using assms
  by (simp add: analyze_test_failure_def and_then_def call_ollama_api_def MODELS_analyzer
        Let_def returns_def)


section \<open>Properties of the generation adapter\<close>

text \<open>
  C4, as the code has it. When the request raises a \<open>RequestException\<close>,
  \<open>call_ollama_api\<close> sends no second request and raises nothing: it returns the text
  \<open>Error: Failed to connect to '<model>' API. Details: <e>\<close> as the answer of the
  service. \<open>generate_code\<close> hands this text on as the generated code.
\<close>

theorem request_failure_is_returned_as_text:
  assumes "MODELS model_key = Some c"
    and "requests_post E (trace w) c messages = RequestException e"
  shows "call_ollama_api E messages model_key w
      = (Inr (connect_error (model_name c) e), w\<lparr>trace := trace w @ [Post c messages]\<rparr>)
    \<and> (model_key = ''coder'' \<and> messages = CodePrompt language (Plain prompt)
       \<longrightarrow> fst (generate_code E language prompt None mode w)
            = Inr (py_strip (remove_fences (connect_error (model_name c) e))))"
  using assms
  by (auto simp: call_ollama_api_def generate_code_def and_then_def returns_def Let_def)

lemma MODELS_coder:
  "MODELS ''coder'' = Some \<lparr>model_name = ''qwen3-coder:latest'',
      model_options = [(''temperature'', ''0.6''), (''num_ctx'', ''16000''), (''top_p'', ''0.95'')]\<rparr>"
  by (simp add: MODELS_def)

theorem request_failure_is_returned_as_text_witness:
  "MODELS ''coder'' = Some \<lparr>model_name = ''qwen3-coder:latest'',
      model_options = [(''temperature'', ''0.6''), (''num_ctx'', ''16000''), (''top_p'', ''0.95'')]\<rparr>
   \<and> fst (call_ollama_api outage_env (CodePrompt ''python'' (Plain ''add two numbers'')) ''coder''
            agent_world)
       = Inr (connect_error ''qwen3-coder:latest'' ''Connection refused'')
   \<and> fst (generate_code outage_env ''python'' ''add two numbers'' None ''generate'' agent_world)
       = Inr (py_strip (remove_fences (connect_error ''qwen3-coder:latest'' ''Connection refused'')))"
proof -
  have h2: "requests_post outage_env (trace agent_world)
      \<lparr>model_name = ''qwen3-coder:latest'',
        model_options = [(''temperature'', ''0.6''), (''num_ctx'', ''16000''), (''top_p'', ''0.95'')]\<rparr>
      (CodePrompt ''python'' (Plain ''add two numbers'')) = RequestException ''Connection refused''"
    by (simp add: outage_env_def)
  show ?thesis
    using MODELS_coder
      request_failure_is_returned_as_text [OF MODELS_coder h2, where language = "''python''"
        and prompt = "''add two numbers''" and mode = "''generate''"]
    by simp
qed

lemma outage_run_facts:
  "fst outage_run = Inr (AnswerPassed ''generated_code/add.py'' ''def add(a, b): return a + b''
      ''1 passed'')"
  "attempts (snd outage_run) = 2"
  "repairs (snd outage_run) = 1"
  "requests (trace (snd outage_run)) =
     [CodePrompt ''python'' (Plain ''add two numbers''),
      UnitTestsPrompt ''add.py'' (connect_error ''qwen3-coder:latest'' ''Connection refused'')
        ''1. Test the add function.'',
      AnalysisPrompt (connect_error ''qwen3-coder:latest'' ''Connection refused'') ''F1 failed'',
      DebugPrompt (connect_error ''qwen3-coder:latest'' ''Connection refused'') ''F1 failed''
        ''test_add.py'',
      UnitTestsPrompt ''add.py'' ''def add(a, b): return a + b'' ''1. Test the add function.'']"
  unfolding outage_run_def by code_simp+

text \<open>
  C4, as the claim has it, fails. The first request of the run, for the code, meets an
  unreachable service. The run does not end there: the error text is written as code,
  tests are generated for it and run, the failure is classified, the text is sent to
  repair, and the run ends as passed.
\<close>

theorem outage_is_classified_and_repaired:
  "fst outage_run = Inr (AnswerPassed ''generated_code/add.py'' ''def add(a, b): return a + b''
      ''1 passed'')
   \<and> attempts (snd outage_run) = 2
   \<and> repairs (snd outage_run) = 1
   \<and> requests (trace (snd outage_run)) =
     [CodePrompt ''python'' (Plain ''add two numbers''),
      UnitTestsPrompt ''add.py'' (connect_error ''qwen3-coder:latest'' ''Connection refused'')
        ''1. Test the add function.'',
      AnalysisPrompt (connect_error ''qwen3-coder:latest'' ''Connection refused'') ''F1 failed'',
      DebugPrompt (connect_error ''qwen3-coder:latest'' ''Connection refused'') ''F1 failed''
        ''test_add.py'',
      UnitTestsPrompt ''add.py'' ''def add(a, b): return a + b'' ''1. Test the add function.'']"
  using outage_run_facts by simp

section \<open>Properties of the orchestrator\<close>

subsection \<open>What each step may change\<close>

lemma call_ollama_api_effect:
  assumes "call_ollama_api E m k w = (r, w')"
  shows "pm w' = pm w \<and> files w' = files w \<and> attempts w' = attempts w
    \<and> repairs w' \<le> repairs w + (if \<exists>c. is_repair (Post c m) then 1 else 0)"
  using assms
  by (auto simp: call_ollama_api_def Let_def attempts_def repairs_def
        split: option.splits http_outcome.splits)

lemma generate_unit_tests_effect:
  assumes "generate_unit_tests E f c p w = (r, w')"
  shows "pm w' = pm w \<and> files w' = files w \<and> attempts w' = attempts w \<and> repairs w' \<le> repairs w"
  using assms unfolding generate_unit_tests_def
  by (elim and_then_cases) (auto dest!: returns_effect call_ollama_api_effect)

lemma analyze_test_failure_effect:
  assumes "analyze_test_failure E c out w = (r, w')"
  shows "pm w' = pm w \<and> files w' = files w \<and> attempts w' = attempts w \<and> repairs w' \<le> repairs w"
  using assms unfolding analyze_test_failure_def
  by (elim and_then_cases)
     (auto simp: Let_def dest!: returns_effect call_ollama_api_effect split: if_splits)

lemma debug_code_effect:
  assumes "debug_code E c out f w = (r, w')"
  shows "pm w' = pm w \<and> files w' = files w \<and> attempts w' = attempts w
    \<and> repairs w' \<le> Suc (repairs w)"
  using assms unfolding debug_code_def
  by (elim and_then_cases) (auto dest!: returns_effect call_ollama_api_effect)

lemma generate_code_effect:
  assumes "generate_code E l p i m w = (r, w')"
  shows "pm w' = pm w \<and> files w' = files w \<and> attempts w' = attempts w \<and> repairs w' \<le> repairs w"
  using assms unfolding generate_code_def Let_def
  by (elim and_then_cases) (auto dest!: returns_effect call_ollama_api_effect)


lemma write_file_effect:
  assumes "write_file n c w = (r, w')"
  shows "pm w' = pm w \<and> attempts w' = attempts w \<and> repairs w' = repairs w"
  using assms by (auto simp: write_file_def attempts_def repairs_def split: if_splits sum.splits)

lemma run_command_effect:
  assumes "run_command E cmd t w = (r, w')"
  shows "pm w' = pm w \<and> attempts w' \<le> Suc (attempts w) \<and> repairs w' = repairs w"
  using assms
  by (auto simp: run_command_def Let_def attempts_def repairs_def
        split: if_splits prod.splits proc_outcome.splits)

lemma create_project_effect:
  assumes "create_project w = (r, w')"
  shows "base_dir (pm w') = base_dir (pm w)"
  using assms by (auto simp: create_project_def Let_def split: if_splits sum.splits)

lemma copy_from_project_effect:
  assumes "copy_from_project n d w = (r, w')"
  shows "pm w' = pm w"
  using assms by (auto simp: copy_from_project_def split: option.splits sum.splits)

lemma loop_body_effect:
  assumes "loop_body E cfg runner code_file test_file plan attempt st w = (r, w')"
  shows "pm w' = pm w \<and> attempts w' \<le> Suc (attempts w)
    \<and> repairs w' \<le> repairs w + (if attempt < MAX_DEBUG_ATTEMPTS cfg then 1 else 0)"
  using assms unfolding loop_body_def
  by (auto elim!: and_then_cases split: prod.splits if_splits
        dest!: returns_effect generate_unit_tests_effect analyze_test_failure_effect
          debug_code_effect write_file_effect run_command_effect)

lemma loop_body_continue:
  assumes "loop_body E cfg runner code_file test_file plan attempt st w = (Inr (Continue st'), w')"
  shows "(analysis_result st' = ''code_bug'' \<and> attempt < MAX_DEBUG_ATTEMPTS cfg)
       \<or> (analysis_result st' = ''test_bug'' \<and> attempt < MAX_TEST_REGEN_ATTEMPTS cfg)"
  using assms unfolding loop_body_def
  by (auto elim!: and_then_cases split: prod.splits if_splits dest!: returns_effect)

lemma test_loop_effect:
  assumes "test_loop E cfg runner code_file test_file plan n a st w = (r, w')"
  shows "pm w' = pm w
    \<and> attempts w' \<le> attempts w + (n - a)
    \<and> attempts w' \<le> attempts w
         + Suc (max (MAX_DEBUG_ATTEMPTS cfg) (MAX_TEST_REGEN_ATTEMPTS cfg) - a)
    \<and> repairs w' \<le> repairs w + (MAX_DEBUG_ATTEMPTS cfg - a)"
  using assms
proof (induction E cfg runner code_file test_file plan n a st w arbitrary: r w'
        rule: test_loop.induct)
  case (1 E cfg runner code_file test_file test_plan n attempt st w)
  show ?case
  proof (cases "attempt < n")
    case False
    with "1.prems" show ?thesis by simp
  next
    case True
    obtain rb wb
      where body: "loop_body E cfg runner code_file test_file test_plan attempt st w = (rb, wb)"
      by fastforce
    note eff = loop_body_effect [OF body]
    show ?thesis
    proof (cases rb)
      case (Inl e)
      with "1.prems" True body have "w' = wb" by simp
      with eff True show ?thesis by (auto split: if_splits)
    next
      case (Inr c)
      show ?thesis
      proof (cases c)
        case (Break st1)
        with "1.prems" True body Inr have "w' = wb" by simp
        with eff True show ?thesis by (auto split: if_splits)
      next
        case (Continue st1)
        with "1.prems" True body Inr
        have rec: "test_loop E cfg runner code_file test_file test_plan n (Suc attempt) st1 wb
            = (r, w')"
          by simp
        have lt: "attempt < MAX_DEBUG_ATTEMPTS cfg \<or> attempt < MAX_TEST_REGEN_ATTEMPTS cfg"
          using loop_body_continue body Inr Continue by blast
        have ih: "pm w' = pm wb
          \<and> attempts w' \<le> attempts wb + (n - Suc attempt)
          \<and> attempts w' \<le> attempts wb
               + Suc (max (MAX_DEBUG_ATTEMPTS cfg) (MAX_TEST_REGEN_ATTEMPTS cfg) - Suc attempt)
          \<and> repairs w' \<le> repairs wb + (MAX_DEBUG_ATTEMPTS cfg - Suc attempt)"
          using "1.IH" [OF True body [symmetric] Inr Continue rec] .
        from ih eff True lt show ?thesis by (auto split: if_splits)
      qed
    qed
  qed
qed

lemma run_tests_effect:
  assumes "run_tests E cfg runner code_file test_file plan code w = (r, w')"
  shows "pm w' = pm w"
    and "attempts w' \<le> attempts w + (MAX_DEBUG_ATTEMPTS cfg + MAX_TEST_REGEN_ATTEMPTS cfg)"
    and "attempts w' \<le> attempts w
           + Suc (max (MAX_DEBUG_ATTEMPTS cfg) (MAX_TEST_REGEN_ATTEMPTS cfg))"
    and "repairs w' \<le> repairs w + MAX_DEBUG_ATTEMPTS cfg"
  using test_loop_effect [OF assms [unfolded run_tests_def]] by simp_all

subsection \<open>The two budgets\<close>

lemma always_code_bug_agent_facts:
  "fst always_code_bug_agent
     = Inr (AnswerFailed ''generated_code/add.py''
         ''I was unable to fix a bug in the code within the allowed attempts.''
         ''def add(a, b): return a - b'' ''F1 failed'')"
  "attempts (snd always_code_bug_agent) = 3"
  "repairs (snd always_code_bug_agent) = 2"
  unfolding always_code_bug_agent_def by code_simp+

lemma always_code_bug_function_facts:
  "fst always_code_bug_function
     = Inr (''def add(a, b): return a - b'', ''def test_add(): assert add(1, 2) == 3'')"
  "attempts (snd always_code_bug_function) = 3"
  "repairs (snd always_code_bug_function) = 2"
  unfolding always_code_bug_function_def by code_simp+

text \<open>
  C7. The classifier always answers \<open>code_bug\<close>, the tests always fail, the limits are
  (2, 1). The loop of the agent class and the loop of the function both make three
  attempts and two repairs, and the agent reports that it could not fix the bug in the
  code within the allowed attempts.
\<close>

theorem always_code_bug_two_repairs_three_attempts:
  "fst always_code_bug_agent
     = Inr (AnswerFailed ''generated_code/add.py''
         ''I was unable to fix a bug in the code within the allowed attempts.''
         ''def add(a, b): return a - b'' ''F1 failed'')
   \<and> attempts (snd always_code_bug_agent) = 3
   \<and> repairs (snd always_code_bug_agent) = 2
   \<and> attempts (snd always_code_bug_function) = 3
   \<and> repairs (snd always_code_bug_function) = 2"
  using always_code_bug_agent_facts always_code_bug_function_facts by simp




subsection \<open>A mode that wants initial code, and none given\<close>

lemma agent_v2_body_without_code:
  assumes "\<not> truthy initial_code"
  shows "agent_v2_body E cfg language code_file prompt test_plan mode initial_code
       = agent_v2_body E cfg language code_file prompt test_plan ''generate'' None"
  using assms by (simp add: agent_v2_body_def)

lemma execute_returns_answer:
  "\<exists>answer. fst (execute_coding_agent_v2 E cfg language code_file prompt test_plan mode
                   initial_code w) = Inr answer"
  by (auto simp: execute_coding_agent_v2_def try_finally_def try_except_def returns_def
        cleanup_def split: prod.splits sum.splits)

lemma debug_without_code_facts:
  "fst debug_without_code
     = Inr (AnswerPassed ''generated_code/add.py'' ''def add(a, b): return a - b'' ''1 passed'')"
  "trace (snd debug_without_code)
     = [Post (the (MODELS ''coder'')) (CodePrompt ''python'' (Plain ''fix the bug'')),
        Post (the (MODELS ''tester''))
          (UnitTestsPrompt ''add.py'' ''def add(a, b): return a - b'' ''1. Test the add function.''),
        Run [''pytest'', ''-q'', ''--tb=no'', ''test_add.py''] ''temp_coding_project'' 60]"
  unfolding debug_without_code_def by code_simp+

text \<open>
  C3, as the claim has it, fails. Called in mode \<open>debug\<close> with no initial code, the
  agent raises nothing: it asks the service for code from the prompt alone, runs the
  tests in the project directory it has created, and answers that they passed.
\<close>

theorem debug_without_code_runs:
  "fst debug_without_code
     = Inr (AnswerPassed ''generated_code/add.py'' ''def add(a, b): return a - b'' ''1 passed'')
   \<and> trace (snd debug_without_code)
     = [Post (the (MODELS ''coder'')) (CodePrompt ''python'' (Plain ''fix the bug'')),
        Post (the (MODELS ''tester''))
          (UnitTestsPrompt ''add.py'' ''def add(a, b): return a - b'' ''1. Test the add function.''),
        Run [''pytest'', ''-q'', ''--tb=no'', ''test_add.py''] ''temp_coding_project'' 60]"
  using debug_without_code_facts by simp

text \<open>
  C3, as the code has it. With no initial code (\<open>None\<close>, or the empty text) the mode is
  not looked at: the run is the run of mode \<open>generate\<close>, whatever the mode asked for,
  and like every run it ends with an answer, never with an exception.
\<close>

theorem missing_initial_code_runs_as_generate:
  "execute_coding_agent_v2 E cfg language code_file prompt test_plan mode None
     = execute_coding_agent_v2 E cfg language code_file prompt test_plan ''generate'' None
   \<and> execute_coding_agent_v2 E cfg language code_file prompt test_plan mode (Some [])
     = execute_coding_agent_v2 E cfg language code_file prompt test_plan ''generate'' None
   \<and> (\<exists>answer. fst (execute_coding_agent_v2 E cfg language code_file prompt test_plan mode
                       None w) = Inr answer)"
  using execute_returns_answer
    agent_v2_body_without_code [of None E cfg language code_file prompt test_plan mode]
    agent_v2_body_without_code [of "Some []" E cfg language code_file prompt test_plan mode]
  by (simp add: execute_coding_agent_v2_def)

subsection \<open>Teardown\<close>


lemma try_finally_cleanup: "snd (try_finally body cleanup w) = snd (cleanup (snd (body w)))"
  by (auto simp: try_finally_def cleanup_def split: prod.splits sum.splits)


lemma agent_v2_body_effect:
  assumes "agent_v2_body E cfg language code_file prompt test_plan mode initial_code w = (r, w')"
  shows "base_dir (pm w') = base_dir (pm w)"
  using assms unfolding agent_v2_body_def
  by (auto elim!: and_then_cases split: if_splits
        dest!: returns_effect create_project_effect generate_code_effect
          write_file_effect run_tests_effect(1) copy_from_project_effect)


lemma agent_sandbox_removed:
  "\<not> path_exists
       (files (snd (execute_coding_agent_v2 E cfg language code_file prompt test_plan mode
                      initial_code w)))
       (base_dir (pm w))"
proof -
  obtain r w3
    where body: "agent_v2_body E cfg language code_file prompt test_plan mode initial_code w
      = (r, w3)"
    by fastforce
  have "snd (try_except (agent_v2_body E cfg language code_file prompt test_plan mode initial_code)
          (\<lambda>e. returns (AnswerError e)) w) = w3"
    using body by (auto simp: try_except_def returns_def split: sum.splits)
  then have "snd (execute_coding_agent_v2 E cfg language code_file prompt test_plan mode
      initial_code w) = snd (cleanup w3)"
    by (simp add: execute_coding_agent_v2_def try_finally_cleanup)
  with cleanup_removes [of w3] agent_v2_body_effect [OF body] show ?thesis by simp
qed




end
